theory Spec2Isabelle
  imports Complex_Main "HOL-Library.Word"
begin

section \<open>JavaScript values used by the weather widget\<close>

text \<open>
  A JavaScript string is a sequence of 16-bit UTF-16 code units. ASCII literals of the
  source are written with \<open>lit\<close>; the emoji and the dash of the source are given by their
  code units.
\<close>

type_synonym js_string = "16 word list"

definition lit :: "string \<Rightarrow> js_string" where
  "lit cs = map of_char cs"

text \<open>
  \<open>String.prototype.trim\<close> removes the ECMAScript WhiteSpace and LineTerminator code
  points from both ends: TAB, LF, VT, FF, CR, SPACE, NBSP, U+1680, U+2000 to U+200A,
  U+2028, U+2029, U+202F, U+205F, U+3000 and U+FEFF. All of them are single code units.
\<close>

definition is_white :: "16 word \<Rightarrow> bool" where
  "is_white c = (c \<in> set [0x9, 0xA, 0xB, 0xC, 0xD, 0x20, 0xA0, 0x1680,
     0x2000, 0x2001, 0x2002, 0x2003, 0x2004, 0x2005, 0x2006, 0x2007, 0x2008, 0x2009, 0x200A,
     0x2028, 0x2029, 0x202F, 0x205F, 0x3000, 0xFEFF])"

definition trim :: "js_string \<Rightarrow> js_string" where
  "trim s = rev (dropWhile is_white (rev (dropWhile is_white s)))"

text \<open>A thrown value: the handlers of the source read only its \<open>message\<close>.\<close>

datatype js_error = Error (message: js_string)

text \<open>
  \<open>err.message || dflt\<close>: an empty (or missing) message is falsy, and the default is
  taken.
\<close>

definition message_or :: "js_error \<Rightarrow> js_string \<Rightarrow> js_string" where
  "message_or err dflt = (if message err = [] then dflt else message err)"

section \<open>The condition code table\<close>

record entry =
  label :: js_string
  emoji :: js_string

definition WMO_table :: "(int \<times> entry) list" where
  "WMO_table =
   [(0, \<lparr>label = lit ''Clear'', emoji = [0x2600, 0xFE0F]\<rparr>),
    (1, \<lparr>label = lit ''Mainly clear'', emoji = [0xD83C, 0xDF24, 0xFE0F]\<rparr>),
    (2, \<lparr>label = lit ''Partly cloudy'', emoji = [0x26C5]\<rparr>),
    (3, \<lparr>label = lit ''Overcast'', emoji = [0x2601, 0xFE0F]\<rparr>),
    (45, \<lparr>label = lit ''Fog'', emoji = [0xD83C, 0xDF2B, 0xFE0F]\<rparr>),
    (48, \<lparr>label = lit ''Depositing rime fog'', emoji = [0xD83C, 0xDF2B, 0xFE0F]\<rparr>),
    (51, \<lparr>label = lit ''Light drizzle'', emoji = [0xD83C, 0xDF26, 0xFE0F]\<rparr>),
    (53, \<lparr>label = lit ''Drizzle'', emoji = [0xD83C, 0xDF26, 0xFE0F]\<rparr>),
    (55, \<lparr>label = lit ''Heavy drizzle'', emoji = [0xD83C, 0xDF27, 0xFE0F]\<rparr>),
    (56, \<lparr>label = lit ''Light freezing drizzle'', emoji = [0xD83C, 0xDF27, 0xFE0F]\<rparr>),
    (57, \<lparr>label = lit ''Freezing drizzle'', emoji = [0xD83C, 0xDF27, 0xFE0F]\<rparr>),
    (61, \<lparr>label = lit ''Light rain'', emoji = [0xD83C, 0xDF27, 0xFE0F]\<rparr>),
    (63, \<lparr>label = lit ''Rain'', emoji = [0xD83C, 0xDF27, 0xFE0F]\<rparr>),
    (65, \<lparr>label = lit ''Heavy rain'', emoji = [0xD83C, 0xDF27, 0xFE0F]\<rparr>),
    (66, \<lparr>label = lit ''Freezing rain'', emoji = [0xD83C, 0xDF27, 0xFE0F]\<rparr>),
    (67, \<lparr>label = lit ''Heavy freezing rain'', emoji = [0xD83C, 0xDF27, 0xFE0F]\<rparr>),
    (71, \<lparr>label = lit ''Light snow'', emoji = [0xD83C, 0xDF28, 0xFE0F]\<rparr>),
    (73, \<lparr>label = lit ''Snow'', emoji = [0xD83C, 0xDF28, 0xFE0F]\<rparr>),
    (75, \<lparr>label = lit ''Heavy snow'', emoji = [0x2744, 0xFE0F]\<rparr>),
    (77, \<lparr>label = lit ''Snow grains'', emoji = [0x2744, 0xFE0F]\<rparr>),
    (80, \<lparr>label = lit ''Light showers'', emoji = [0xD83C, 0xDF26, 0xFE0F]\<rparr>),
    (81, \<lparr>label = lit ''Showers'', emoji = [0xD83C, 0xDF26, 0xFE0F]\<rparr>),
    (82, \<lparr>label = lit ''Heavy showers'', emoji = [0xD83C, 0xDF27, 0xFE0F]\<rparr>),
    (85, \<lparr>label = lit ''Snow showers'', emoji = [0xD83C, 0xDF28, 0xFE0F]\<rparr>),
    (86, \<lparr>label = lit ''Heavy snow showers'', emoji = [0x2744, 0xFE0F]\<rparr>),
    (95, \<lparr>label = lit ''Thunderstorm'', emoji = [0x26C8, 0xFE0F]\<rparr>),
    (96, \<lparr>label = lit ''Thunderstorm + hail'', emoji = [0x26C8, 0xFE0F]\<rparr>),
    (99, \<lparr>label = lit ''Thunderstorm + heavy hail'', emoji = [0x26C8, 0xFE0F]\<rparr>)]"

text \<open>\<open>WMO[code]\<close>: the entry of an own key, \<open>undefined\<close> (\<open>None\<close>) otherwise.\<close>

definition WMO :: "int \<Rightarrow> entry option" where
  "WMO code = map_of WMO_table code"

text \<open>
  \<open>WMO[code]?.field || dflt\<close>: the optional chaining yields \<open>undefined\<close> for a missing
  entry, and \<open>||\<close> replaces \<open>undefined\<close> and the empty string by the default. No branch
  of the expression throws.
\<close>

definition field_or :: "(entry \<Rightarrow> js_string) \<Rightarrow> int \<Rightarrow> js_string \<Rightarrow> js_string" where
  "field_or field code dflt =
     (case WMO code of
        None \<Rightarrow> dflt
      | Some e \<Rightarrow> if field e = [] then dflt else field e)"

text \<open>
  The view describes a code in two places, each with its own defaults: the current card
  (lines 182 and 185) and a card of the forecast grid (lines 206 and 207). \<open>describe\<close>
  is the pair shown in the forecast grid.
\<close>

definition current_fallback :: entry where
  "current_fallback = \<lparr>label = lit ''Current conditions'', emoji = [0xD83C, 0xDF24, 0xFE0F]\<rparr>"

definition daily_fallback :: entry where
  "daily_fallback = \<lparr>label = [0x2014], emoji = [0x26C5]\<rparr>"

definition describe_current :: "int \<Rightarrow> entry" where
  "describe_current code =
     \<lparr>label = field_or label code (label current_fallback),
      emoji = field_or emoji code (emoji current_fallback)\<rparr>"

definition describe :: "int \<Rightarrow> entry" where
  "describe code =
     \<lparr>label = field_or label code (label daily_fallback),
      emoji = field_or emoji code (emoji daily_fallback)\<rparr>"

section \<open>Data model\<close>

text \<open>\<open>unit\<close> is one of the two strings the toggle buttons set.\<close>

datatype unit_pref = Fahrenheit | Celsius

definition unit_str :: "unit_pref \<Rightarrow> js_string" where
  "unit_str u = (case u of Fahrenheit \<Rightarrow> lit ''fahrenheit'' | Celsius \<Rightarrow> lit ''celsius'')"

definition speedUnit :: "unit_pref \<Rightarrow> js_string" where
  "speedUnit u = (if u = Fahrenheit then lit ''mph'' else lit ''kmh'')"

record place =
  name :: js_string
  country :: js_string
  lat :: real
  lon :: real

text \<open>One element of \<open>data.results\<close> of the geocoding service.\<close>

record geo_result =
  result_name :: js_string
  country_code :: js_string
  latitude :: real
  longitude :: real

text \<open>
  \<open>data?.results\<close> of a geocoding body: \<open>None\<close> when the body is null or has no
  \<open>results\<close>.
\<close>

type_synonym geo_data = "geo_result list option"

record current_conditions =
  temperature_2m :: real
  apparent_temperature :: real
  relative_humidity_2m :: int
  wind_speed_10m :: real
  weather_code :: int
  time :: js_string

text \<open>
  The \<open>daily\<close> object of a forecast body. The view guards \<open>daily\<close> and \<open>daily.time\<close> with
  optional chaining and reads the three other arrays unguarded, so each array may be
  missing (\<open>None\<close>).
\<close>

record daily_forecast =
  daily_time :: "js_string list option"
  daily_weather_code :: "int list option"
  temperature_2m_max :: "real list option"
  temperature_2m_min :: "real list option"

record payload =
  current :: "current_conditions option"
  daily :: "daily_forecast option"

text \<open>The six \<open>useState\<close> cells of \<open>App\<close>.\<close>

record app_state =
  query :: js_string
  unit :: unit_pref
  place :: "place option"
  wx :: "payload option"
  loading :: bool
  error :: js_string

section \<open>Network, platform and suspended handlers\<close>

text \<open>
  A request as \<open>fetch\<close> receives it. The geocoding URL varies only in its \<open>name\<close>
  parameter (already percent-encoded; \<open>count=1\<close>, \<open>language=en\<close> and \<open>format=json\<close> are
  fixed), the forecast URL in \<open>latitude\<close>, \<open>longitude\<close>, \<open>temperature_unit\<close> and
  \<open>wind_speed_unit\<close> (the field lists and \<open>timezone=auto\<close> are fixed).
\<close>

datatype request =
    Geocoding_search js_string
  | Forecast real real js_string js_string

text \<open>
  What comes back: \<open>fetch\<close> or \<open>res.json()\<close> rejects with an error, the response is not
  \<open>ok\<close>, or it is \<open>ok\<close> with a parsed body.
\<close>

datatype 'a response = Rejected js_error | Not_ok | Ok 'a

datatype position_result = Position real real | Position_error js_error

text \<open>
  What the browser provides: whether \<open>navigator.geolocation\<close> exists, and
  \<open>encodeURIComponent\<close>, which throws a \<open>URIError\<close> on a lone surrogate.
\<close>

record platform =
  geolocation :: bool
  encodeURIComponent :: "js_string \<Rightarrow> js_error + js_string"

text \<open>
  A handler suspended at an \<open>await\<close> or waiting for a callback. \<open>fetchWeather\<close> closes
  over the \<open>unit\<close> of the render its caller belongs to, so a handler that has not yet
  called it carries that unit.
\<close>

datatype task =
    Search_geocoding unit_pref
  | Search_forecast
  | Positioning unit_pref
  | Location_forecast real real
  | Refresh_forecast

datatype outcome =
    Geocoded "geo_data response"
  | Forecasted "payload response"
  | Located position_result

text \<open>
  The component with its environment: the state cells, the handlers in flight, and every
  request issued so far, oldest first.
\<close>

record sys =
  ui :: app_state
  pending :: "task list"
  requests :: "request list"

datatype event =
    Set_query js_string
  | Submit_search
  | Use_my_location
  | Set_unit unit_pref
  | Settle nat outcome

section \<open>The handlers of \<open>App\<close>\<close>

definition setQuery :: "js_string \<Rightarrow> sys \<Rightarrow> sys" where
  "setQuery q s = s\<lparr>ui := (ui s)\<lparr>query := q\<rparr>\<rparr>"

definition setUnit :: "unit_pref \<Rightarrow> sys \<Rightarrow> sys" where
  "setUnit u s = s\<lparr>ui := (ui s)\<lparr>unit := u\<rparr>\<rparr>"

definition setPlace :: "place \<Rightarrow> sys \<Rightarrow> sys" where
  "setPlace p s = s\<lparr>ui := (ui s)\<lparr>place := Some p\<rparr>\<rparr>"

definition setWx :: "payload \<Rightarrow> sys \<Rightarrow> sys" where
  "setWx w s = s\<lparr>ui := (ui s)\<lparr>wx := Some w\<rparr>\<rparr>"

definition setLoading :: "bool \<Rightarrow> sys \<Rightarrow> sys" where
  "setLoading b s = s\<lparr>ui := (ui s)\<lparr>loading := b\<rparr>\<rparr>"

definition setError :: "js_string \<Rightarrow> sys \<Rightarrow> sys" where
  "setError m s = s\<lparr>ui := (ui s)\<lparr>error := m\<rparr>\<rparr>"

text \<open>\<open>await fetch(url)\<close>: the request goes out and the handler is suspended.\<close>

definition fetch :: "request \<Rightarrow> task \<Rightarrow> sys \<Rightarrow> sys" where
  "fetch r k s = s\<lparr>pending := pending s @ [k], requests := requests s @ [r]\<rparr>"

text \<open>\<open>geocodeCity\<close> after its \<open>fetch\<close> has settled (lines 66 to 70).\<close>

fun geocodeCity :: "geo_data response \<Rightarrow> js_error + place" where
  "geocodeCity (Rejected err) = Inl err"
| "geocodeCity Not_ok = Inl (Error (lit ''Geocoding failed''))"
| "geocodeCity (Ok None) = Inl (Error (lit ''No results for that city''))"
| "geocodeCity (Ok (Some [])) = Inl (Error (lit ''No results for that city''))"
| "geocodeCity (Ok (Some (r # rs))) =
     Inr \<lparr>name = result_name r, country = country_code r,
          lat = latitude r, lon = longitude r\<rparr>"

text \<open>The URL of \<open>fetchWeather\<close> (line 74), and \<open>fetchWeather\<close> after its \<open>fetch\<close>.\<close>

definition fetchWeather_url :: "unit_pref \<Rightarrow> real \<Rightarrow> real \<Rightarrow> request" where
  "fetchWeather_url u la lo = Forecast la lo (unit_str u) (speedUnit u)"

fun fetchWeather :: "payload response \<Rightarrow> js_error + payload" where
  "fetchWeather (Rejected err) = Inl err"
| "fetchWeather Not_ok = Inl (Error (lit ''Weather fetch failed''))"
| "fetchWeather (Ok data) = Inr data"

text \<open>
  \<open>searchCity\<close> up to its first \<open>await\<close>. The error is cleared before the query is
  looked at; \<open>encodeURIComponent\<close> runs inside the \<open>try\<close>, after \<open>setLoading(true)\<close>.
\<close>

definition searchCity :: "platform \<Rightarrow> sys \<Rightarrow> sys" where
  "searchCity pf s =
     (let s1 = setError [] s in
      if trim (query (ui s)) = [] then s1
      else
        let s2 = setLoading True s1 in
        case encodeURIComponent pf (trim (query (ui s))) of
          Inl err \<Rightarrow>
            setLoading False (setError (message_or err (lit ''Something went wrong'')) s2)
        | Inr nm \<Rightarrow> fetch (Geocoding_search nm) (Search_geocoding (unit (ui s))) s2)"

text \<open>\<open>searchCity\<close> resumed with the geocoding response (lines 87 to 89).\<close>

definition searchCity_geocoded :: "unit_pref \<Rightarrow> geo_data response \<Rightarrow> sys \<Rightarrow> sys" where
  "searchCity_geocoded u r s =
     (case geocodeCity r of
        Inl err \<Rightarrow>
          setLoading False (setError (message_or err (lit ''Something went wrong'')) s)
      | Inr p \<Rightarrow> fetch (fetchWeather_url u (lat p) (lon p)) Search_forecast (setPlace p s))"

text \<open>\<open>searchCity\<close> resumed with the forecast response (lines 89 to 95).\<close>

definition searchCity_forecasted :: "payload response \<Rightarrow> sys \<Rightarrow> sys" where
  "searchCity_forecasted r s =
     (case fetchWeather r of
        Inl err \<Rightarrow>
          setLoading False (setError (message_or err (lit ''Something went wrong'')) s)
      | Inr w \<Rightarrow> setLoading False (setWx w s))"

text \<open>\<open>useMyLocation\<close> up to \<open>getCurrentPosition\<close>, which issues no network request.\<close>

definition useMyLocation :: "platform \<Rightarrow> sys \<Rightarrow> sys" where
  "useMyLocation pf s =
     (let s1 = setError [] s in
      if \<not> geolocation pf then setError (lit ''Geolocation not supported'') s1
      else (setLoading True s1)\<lparr>pending := pending s @ [Positioning (unit (ui s))]\<rparr>)"

text \<open>The two callbacks of \<open>getCurrentPosition\<close> (lines 106 to 121).\<close>

definition useMyLocation_located :: "unit_pref \<Rightarrow> position_result \<Rightarrow> sys \<Rightarrow> sys" where
  "useMyLocation_located u r s =
     (case r of
        Position la lo \<Rightarrow> fetch (fetchWeather_url u la lo) (Location_forecast la lo) s
      | Position_error err \<Rightarrow>
          setError (message_or err (lit ''Location permission denied'')) (setLoading False s))"

definition useMyLocation_forecasted :: "real \<Rightarrow> real \<Rightarrow> payload response \<Rightarrow> sys \<Rightarrow> sys" where
  "useMyLocation_forecasted la lo r s =
     (case fetchWeather r of
        Inl err \<Rightarrow>
          setLoading False (setError (message_or err (lit ''Failed to fetch weather'')) s)
      | Inr w \<Rightarrow>
          setLoading False
            (setPlace \<lparr>name = lit ''My location'', country = [], lat = la, lon = lo\<rparr>
              (setWx w s)))"

text \<open>
  The effect with dependency \<open>[unit]\<close> (lines 126 to 140): it reads \<open>place\<close> and \<open>unit\<close>
  of the render that triggered it.
\<close>

definition unit_effect :: "sys \<Rightarrow> sys" where
  "unit_effect s =
     (case place (ui s) of
        None \<Rightarrow> s
      | Some p \<Rightarrow>
          fetch (fetchWeather_url (unit (ui s)) (lat p) (lon p)) Refresh_forecast
            (setLoading True s))"

definition unit_effect_forecasted :: "payload response \<Rightarrow> sys \<Rightarrow> sys" where
  "unit_effect_forecasted r s =
     (case fetchWeather r of
        Inl err \<Rightarrow>
          setLoading False (setError (message_or err (lit ''Failed to refresh weather'')) s)
      | Inr w \<Rightarrow> setLoading False (setWx w s))"

text \<open>
  A toggle button calls \<open>setUnit\<close>. Setting the value the cell already holds causes no
  render, and the effect runs only when \<open>unit\<close> differs from the previous render.
\<close>

definition changeUnit :: "unit_pref \<Rightarrow> sys \<Rightarrow> sys" where
  "changeUnit u s = (if u = unit (ui s) then s else unit_effect (setUnit u s))"

section \<open>The component as a transition system\<close>

text \<open>
  A suspended handler continues with the outcome it waits for; an outcome of another kind
  cannot reach it (\<open>None\<close>).
\<close>

fun resume :: "task \<Rightarrow> outcome \<Rightarrow> sys \<Rightarrow> sys option" where
  "resume (Search_geocoding u) (Geocoded r) s = Some (searchCity_geocoded u r s)"
| "resume Search_forecast (Forecasted r) s = Some (searchCity_forecasted r s)"
| "resume (Positioning u) (Located r) s = Some (useMyLocation_located u r s)"
| "resume (Location_forecast la lo) (Forecasted r) s = Some (useMyLocation_forecasted la lo r s)"
| "resume Refresh_forecast (Forecasted r) s = Some (unit_effect_forecasted r s)"
| "resume _ _ _ = None"

text \<open>
  \<open>Settle i out\<close> delivers \<open>out\<close> to the \<open>i\<close>-th handler in flight, which leaves the
  list; handlers it suspends anew join at the end.
\<close>

definition settle :: "nat \<Rightarrow> outcome \<Rightarrow> sys \<Rightarrow> sys" where
  "settle i out s =
     (if i < length (pending s) then
        (case resume (pending s ! i) out
                (s\<lparr>pending := take i (pending s) @ drop (Suc i) (pending s)\<rparr>) of
           None \<Rightarrow> s
         | Some s' \<Rightarrow> s')
      else s)"

fun step :: "platform \<Rightarrow> sys \<Rightarrow> event \<Rightarrow> sys" where
  "step pf s (Set_query q) = setQuery q s"
| "step pf s Submit_search = searchCity pf s"
| "step pf s Use_my_location = useMyLocation pf s"
| "step pf s (Set_unit u) = changeUnit u s"
| "step pf s (Settle i out) = settle i out s"

definition run :: "platform \<Rightarrow> sys \<Rightarrow> event list \<Rightarrow> sys" where
  "run pf s evs = foldl (step pf) s evs"

text \<open>
  The state after mounting: the initial values of the \<open>useState\<close> cells (lines 39 to 44),
  then the \<open>[unit]\<close> effect, which runs once on mount.
\<close>

definition initial :: app_state where
  "initial = \<lparr>query = [], unit = Fahrenheit, place = None, wx = None,
              loading = False, error = []\<rparr>"

definition mount :: sys where
  "mount = unit_effect \<lparr>ui = initial, pending = [], requests = []\<rparr>"

section \<open>The view\<close>

text \<open>\<open>{error && <p>...</p>}\<close>: the notice is shown for a non-empty message only.\<close>

definition error_notice :: "app_state \<Rightarrow> js_string option" where
  "error_notice a = (if error a = [] then None else Some (error a))"

text \<open>\<open>xs[i]\<close> is \<open>undefined\<close> out of range.\<close>

definition elem_at :: "'a list \<Rightarrow> nat \<Rightarrow> 'a option" where
  "elem_at xs i = (if i < length xs then Some (xs ! i) else None)"

text \<open>
  \<open>Math.round\<close> rounds to the nearest integer, a half upwards; of \<open>undefined\<close> it is
  \<open>NaN\<close> (\<open>None\<close>). A number of a response body is taken as the real it denotes.
\<close>

definition round_js :: "real option \<Rightarrow> int option" where
  "round_js x = map_option (\<lambda>v. \<lfloor>v + 1 / 2\<rfloor>) x"

text \<open>\<open>WMO[undefined]\<close> is \<open>undefined\<close>, so a missing code shows the defaults.\<close>

definition describe_opt :: "int option \<Rightarrow> entry" where
  "describe_opt c = (case c of None \<Rightarrow> daily_fallback | Some code \<Rightarrow> describe code)"

text \<open>
  One card of the forecast grid (lines 204 to 212): the date given to \<open>formatDay\<close>, the
  emoji, the label, and the rounded maximum and minimum.
\<close>

record card =
  card_date :: js_string
  card_emoji :: js_string
  card_label :: js_string
  card_max :: "int option"
  card_min :: "int option"

datatype view_error = TypeError

text \<open>Indexing a missing array throws a \<open>TypeError\<close>.\<close>

definition day_card :: "daily_forecast \<Rightarrow> nat \<Rightarrow> js_string \<Rightarrow> view_error + card" where
  "day_card d i date =
     (case (daily_weather_code d, temperature_2m_max d, temperature_2m_min d) of
        (Some codes, Some maxs, Some mins) \<Rightarrow>
          Inr \<lparr>card_date = date,
               card_emoji = emoji (describe_opt (elem_at codes i)),
               card_label = label (describe_opt (elem_at codes i)),
               card_max = round_js (elem_at maxs i),
               card_min = round_js (elem_at mins i)\<rparr>
      | _ \<Rightarrow> Inl TypeError)"

text \<open>\<open>.map((date, i) => ...)\<close> from index \<open>i\<close> on.\<close>

fun cards_from :: "daily_forecast \<Rightarrow> nat \<Rightarrow> js_string list \<Rightarrow> view_error + card list" where
  "cards_from d i [] = Inr []"
| "cards_from d i (date # dates) =
     (case day_card d i date of
        Inl e \<Rightarrow> Inl e
      | Inr c \<Rightarrow>
          (case cards_from d (Suc i) dates of
             Inl e \<Rightarrow> Inl e
           | Inr cs \<Rightarrow> Inr (c # cs)))"

text \<open>
  \<open>daily?.time?.slice(0, 5).map(...) || <p>No forecast yet.</p>\<close>: an empty array of
  cards is truthy, so the notice appears only when \<open>daily\<close> or \<open>daily.time\<close> is missing.
\<close>

datatype grid = No_forecast | Cards "card list"

definition forecast_grid :: "payload option \<Rightarrow> view_error + grid" where
  "forecast_grid w =
     (case Option.bind w daily of
        None \<Rightarrow> Inr No_forecast
      | Some d \<Rightarrow>
          (case daily_time d of
             None \<Rightarrow> Inr No_forecast
           | Some dates \<Rightarrow>
               (case cards_from d 0 (take 5 dates) of
                  Inl e \<Rightarrow> Inl e
                | Inr cs \<Rightarrow> Inr (Cards cs))))"

section \<open>Example data\<close>

text \<open>
  A platform for the examples below: geolocation is available, and the encoder returns
  its argument, as \<open>encodeURIComponent\<close> does on the names used here (letters only).
\<close>

definition browser :: platform where
  "browser = \<lparr>geolocation = True, encodeURIComponent = (\<lambda>s. Inr s)\<rparr>"

definition paris :: geo_result where
  "paris = \<lparr>result_name = lit ''Paris'', country_code = lit ''FR'',
             latitude = 48.85, longitude = 2.35\<rparr>"

definition orlando :: geo_result where
  "orlando = \<lparr>result_name = lit ''Orlando'', country_code = lit ''US'',
               latitude = 28.5, longitude = - 81.4\<rparr>"

definition three_days :: daily_forecast where
  "three_days = \<lparr>daily_time = Some [lit ''2025-01-01'', lit ''2025-01-02'', lit ''2025-01-03''],
                  daily_weather_code = Some [0, 61, 4],
                  temperature_2m_max = Some [71.6, 68.5, 70],
                  temperature_2m_min = Some [55.2, 54.5, - 0.5]\<rparr>"

definition seven_days :: daily_forecast where
  "seven_days = \<lparr>daily_time = Some [lit ''d1'', lit ''d2'', lit ''d3'', lit ''d4'', lit ''d5'',
                                     lit ''d6'', lit ''d7''],
                  daily_weather_code = Some [0, 1, 2, 3, 45, 48, 51],
                  temperature_2m_max = Some [10, 11, 12, 13, 14, 15, 16],
                  temperature_2m_min = Some [0, 1, 2, 3, 4, 5, 6]\<rparr>"

definition sunny :: payload where
  "sunny = \<lparr>current = None, daily = Some three_days\<rparr>"

definition week :: payload where
  "week = \<lparr>current = None, daily = Some seven_days\<rparr>"

text \<open>A search for Paris that succeeds, from the mounted component.\<close>

definition paris_shown :: "event list" where
  "paris_shown =
     [Set_query (lit ''Paris''), Submit_search,
      Settle 0 (Geocoded (Ok (Some [paris]))), Settle 0 (Forecasted (Ok sunny))]"

text \<open>A search that finds nothing, then a query of two spaces.\<close>

definition nothing_found :: "event list" where
  "nothing_found =
     [Set_query (lit ''Atlantis''), Submit_search,
      Settle 0 (Geocoded (Ok (Some []))), Set_query (lit ''  '')]"

text \<open>
  After Paris is shown, a search that finds nothing, then a change of unit: the refresh is
  in flight, \<open>loading\<close> is true and the error of the failed search is still set.
\<close>

definition refreshing :: "event list" where
  "refreshing =
     paris_shown @
     [Set_query (lit ''Atlantis''), Submit_search,
      Settle 0 (Geocoded (Ok (Some []))), Set_unit Celsius]"

section \<open>Auxiliary facts\<close>

lemmas setter_defs =
  setQuery_def setUnit_def setPlace_def setWx_def setLoading_def setError_def fetch_def

lemmas handler_defs =
  searchCity_def searchCity_geocoded_def searchCity_forecasted_def
  useMyLocation_def useMyLocation_located_def useMyLocation_forecasted_def
  changeUnit_def unit_effect_def unit_effect_forecasted_def settle_def run_def
  fetchWeather_url_def

lemmas example_defs =
  browser_def mount_def initial_def paris_def orlando_def sunny_def week_def
  paris_shown_def nothing_found_def refreshing_def three_days_def seven_days_def

lemma trim_empty_iff: "trim q = [] \<longleftrightarrow> list_all is_white q"
proof
  assume e: "trim q = []"
  show "list_all is_white q"
  proof (rule ccontr)
    assume "\<not> list_all is_white q"
    then have ne: "dropWhile is_white q \<noteq> []"
      by (simp add: list_all_iff)
    then have "\<not> is_white (hd (dropWhile is_white q))"
      by (rule hd_dropWhile)
    moreover have "hd (dropWhile is_white q) \<in> set (rev (dropWhile is_white q))"
      using ne by simp
    ultimately have "dropWhile is_white (rev (dropWhile is_white q)) \<noteq> []"
      by auto
    with e show False by (simp add: trim_def)
  qed
next
  assume "list_all is_white q"
  then have "dropWhile is_white q = []"
    by (simp add: list_all_iff)
  then have "trim q = rev (dropWhile is_white (rev []))"
    by (simp only: trim_def)
  then show "trim q = []" by simp
qed

lemma message_or_nonempty: "dflt \<noteq> [] \<Longrightarrow> message_or err dflt \<noteq> []"
  by (simp add: message_or_def)

lemma table_entries_nonempty:
  assumes "WMO code = Some e"
  shows "label e \<noteq> [] \<and> emoji e \<noteq> []"
proof -
  from assms have "(code, e) \<in> set WMO_table"
    unfolding WMO_def by (rule map_of_SomeD)
  then show ?thesis
    by (auto simp: WMO_table_def lit_def)
qed

lemma field_or_mapped: "WMO code = Some e \<Longrightarrow> field_or label code d = label e \<and> field_or emoji code d' = emoji e"
  using table_entries_nonempty [of code e] by (simp add: field_or_def)

lemma field_or_unmapped: "WMO code = None \<Longrightarrow> field_or f code d = d"
  by (simp add: field_or_def)

section \<open>The search path\<close>

text \<open>
  What a failing search leaves behind. When geocoding fails, only \<open>loading\<close> and \<open>error\<close>
  change. When geocoding succeeds and the forecast fails, the payload is kept, but
  \<open>place\<close> already holds the new place: \<open>setPlace\<close> precedes the forecast request.
\<close>

lemma search_geocoding_failure:
  assumes "trim (query (ui s)) \<noteq> []"
    and "encodeURIComponent pf (trim (query (ui s))) = Inr nm"
    and "geocodeCity r = Inl err"
  shows "run pf s [Submit_search, Settle (length (pending s)) (Geocoded r)] =
           s\<lparr>ui := (ui s)\<lparr>loading := False,
                           error := message_or err (lit ''Something went wrong'')\<rparr>,
              requests := requests s @ [Geocoding_search nm]\<rparr>"
  using assms by (simp add: handler_defs setter_defs)

lemma search_forecast_failure:
  assumes "trim (query (ui s)) \<noteq> []"
    and "encodeURIComponent pf (trim (query (ui s))) = Inr nm"
    and "geocodeCity r = Inr p"
    and "fetchWeather r' = Inl err"
  shows "run pf s [Submit_search, Settle (length (pending s)) (Geocoded r),
                   Settle (length (pending s)) (Forecasted r')] =
           s\<lparr>ui := (ui s)\<lparr>place := Some p, loading := False,
                           error := message_or err (lit ''Something went wrong'')\<rparr>,
              requests := requests s @
                [Geocoding_search nm,
                 Forecast (lat p) (lon p) (unit_str (unit (ui s))) (speedUnit (unit (ui s)))]\<rparr>"
  using assms by (simp add: handler_defs setter_defs)

text \<open>
  C1. A failing search sets \<open>error\<close> and ends with \<open>loading\<close> false, and is said to leave
  \<open>place\<close> and the payload as they were. Evaluated after a successful search for Paris:
  a search for Orlando whose geocoding succeeds and whose forecast request is answered
  with a failure status ends with the error message, not loading, the payload of Paris,
  and the place Orlando.
\<close>

theorem search_forecast_failure_replaces_place:
  "place (ui (run browser mount paris_shown)) =
     Some \<lparr>name = lit ''Paris'', country = lit ''FR'', lat = 48.85, lon = 2.35\<rparr> \<and>
   wx (ui (run browser mount paris_shown)) = Some sunny \<and>
   ui (run browser mount
        (paris_shown @
         [Set_query (lit ''Orlando''), Submit_search,
          Settle 0 (Geocoded (Ok (Some [orlando]))), Settle 0 (Forecasted Not_ok)])) =
     \<lparr>query = lit ''Orlando'', unit = Fahrenheit,
      place = Some \<lparr>name = lit ''Orlando'', country = lit ''US'', lat = 28.5, lon = - 81.4\<rparr>,
      wx = Some sunny, loading = False, error = lit ''Weather fetch failed''\<rparr>"
  by (simp add: example_defs handler_defs setter_defs trim_def is_white_def lit_def
      message_or_def)

section \<open>Evaluated runs\<close>

lemma paris_shown_state:
  "run browser mount paris_shown =
     \<lparr>ui = \<lparr>query = lit ''Paris'', unit = Fahrenheit,
            place = Some \<lparr>name = lit ''Paris'', country = lit ''FR'', lat = 48.85, lon = 2.35\<rparr>,
            wx = Some sunny, loading = False, error = []\<rparr>,
      pending = [],
      requests = [Geocoding_search (lit ''Paris''),
                  Forecast 48.85 2.35 (lit ''fahrenheit'') (lit ''mph'')]\<rparr>"
  by (simp add: example_defs handler_defs setter_defs trim_def is_white_def lit_def
      unit_str_def speedUnit_def)

lemma nothing_found_state:
  "run browser mount nothing_found =
     \<lparr>ui = \<lparr>query = lit ''  '', unit = Fahrenheit, place = None, wx = None,
            loading = False, error = lit ''No results for that city''\<rparr>,
      pending = [],
      requests = [Geocoding_search (lit ''Atlantis'')]\<rparr>"
  by (simp add: example_defs handler_defs setter_defs trim_def is_white_def lit_def
      message_or_def)

lemma refreshing_state:
  "run browser mount refreshing =
     \<lparr>ui = \<lparr>query = lit ''Atlantis'', unit = Celsius,
            place = Some \<lparr>name = lit ''Paris'', country = lit ''FR'', lat = 48.85, lon = 2.35\<rparr>,
            wx = Some sunny, loading = True, error = lit ''No results for that city''\<rparr>,
      pending = [Refresh_forecast],
      requests = [Geocoding_search (lit ''Paris''),
                  Forecast 48.85 2.35 (lit ''fahrenheit'') (lit ''mph''),
                  Geocoding_search (lit ''Atlantis''),
                  Forecast 48.85 2.35 (lit ''celsius'') (lit ''kmh'')]\<rparr>"
proof -
  have "run browser mount refreshing =
          run browser (run browser mount paris_shown)
            [Set_query (lit ''Atlantis''), Submit_search,
             Settle 0 (Geocoded (Ok (Some []))), Set_unit Celsius]"
    by (simp add: refreshing_def run_def)
  then show ?thesis
    by (simp add: paris_shown_state)
      (simp add: browser_def handler_defs setter_defs trim_def is_white_def lit_def
        message_or_def unit_str_def speedUnit_def)
qed

section \<open>Searching while a request is in flight\<close>

text \<open>
  C2 (as stated). While \<open>loading\<close> is true a submitted search is said to be ignored. In
  the state reached while a unit refresh is in flight, \<open>loading\<close> is true; submitting the
  search for Atlantis there issues a geocoding request and clears \<open>error\<close>.
\<close>

theorem submit_while_loading_counterexample:
  "loading (ui (run browser mount refreshing)) \<and>
   requests (step browser (run browser mount refreshing) Submit_search) =
     requests (run browser mount refreshing) @ [Geocoding_search (lit ''Atlantis'')] \<and>
   error (ui (run browser mount refreshing)) = lit ''No results for that city'' \<and>
   error (ui (step browser (run browser mount refreshing) Submit_search)) = [] \<and>
   ui (step browser (run browser mount refreshing) Submit_search) \<noteq>
     ui (run browser mount refreshing)"
  by (simp add: refreshing_state)
    (simp add: browser_def searchCity_def setter_defs trim_def is_white_def lit_def)

text \<open>
  C2 (amended). \<open>searchCity\<close> never reads \<open>loading\<close>. In a state where \<open>loading\<close> is
  true and the trimmed query is not empty (and \<open>encodeURIComponent\<close> accepts it), a
  submitted search clears \<open>error\<close>, issues one geocoding request for the trimmed query and
  suspends, which is what it does from the same state with \<open>loading\<close> false.
\<close>

theorem submit_not_gated_by_loading:
  assumes "loading (ui s)"
    and "trim (query (ui s)) \<noteq> []"
    and "encodeURIComponent pf (trim (query (ui s))) = Inr nm"
  shows "step pf s Submit_search =
           s\<lparr>ui := (ui s)\<lparr>error := []\<rparr>,
              pending := pending s @ [Search_geocoding (unit (ui s))],
              requests := requests s @ [Geocoding_search nm]\<rparr> \<and>
         step pf s Submit_search = step pf (setLoading False s) Submit_search"
  using assms by (simp add: searchCity_def setter_defs)

theorem submit_not_gated_by_loading_witness:
  "loading (ui (run browser mount [Set_query (lit ''Orlando''), Submit_search])) \<and>
   requests (run browser mount [Set_query (lit ''Orlando''), Submit_search]) =
     [Geocoding_search (lit ''Orlando'')] \<and>
   requests (step browser (run browser mount [Set_query (lit ''Orlando''), Submit_search])
               Submit_search) =
     [Geocoding_search (lit ''Orlando''), Geocoding_search (lit ''Orlando'')] \<and>
   pending (step browser (run browser mount [Set_query (lit ''Orlando''), Submit_search])
               Submit_search) =
     [Search_geocoding Fahrenheit, Search_geocoding Fahrenheit]"
proof -
  let ?s = "run browser mount [Set_query (lit ''Orlando''), Submit_search]"
  have s: "?s = \<lparr>ui = \<lparr>query = lit ''Orlando'', unit = Fahrenheit, place = None, wx = None,
                        loading = True, error = []\<rparr>,
                  pending = [Search_geocoding Fahrenheit],
                  requests = [Geocoding_search (lit ''Orlando'')]\<rparr>"
    by (simp add: example_defs handler_defs setter_defs trim_def is_white_def lit_def)
  have t: "trim (query (ui ?s)) = lit ''Orlando''"
    by (simp add: s) (simp add: trim_def is_white_def lit_def)
  have h1: "loading (ui ?s)" by (simp add: s)
  have h2: "trim (query (ui ?s)) \<noteq> []" by (simp add: t) (simp add: lit_def)
  have h3: "encodeURIComponent browser (trim (query (ui ?s))) = Inr (lit ''Orlando'')"
    by (simp only: t) (simp add: browser_def)
  from submit_not_gated_by_loading [OF h1 h2 h3] have
    "step browser ?s Submit_search =
       ?s\<lparr>ui := (ui ?s)\<lparr>error := []\<rparr>,
           pending := pending ?s @ [Search_geocoding (unit (ui ?s))],
           requests := requests ?s @ [Geocoding_search (lit ''Orlando'')]\<rparr>" ..
  then show ?thesis by (simp add: s)
qed

section \<open>Blank queries\<close>

text \<open>
  C3 (as stated). A blank query is said to leave the whole state unchanged. After a
  search that found nothing the error message is set; submitting a query of two spaces
  then clears it.
\<close>

theorem blank_submit_counterexample:
  "list_all is_white (query (ui (run browser mount nothing_found))) \<and>
   error (ui (run browser mount nothing_found)) = lit ''No results for that city'' \<and>
   error (ui (step browser (run browser mount nothing_found) Submit_search)) = [] \<and>
   ui (step browser (run browser mount nothing_found) Submit_search) \<noteq>
     ui (run browser mount nothing_found)"
  by (simp add: nothing_found_state)
    (simp add: searchCity_def setter_defs trim_def is_white_def lit_def)

text \<open>
  C3 (amended). For every query that is empty or consists only of white space, a
  submitted search issues no request, suspends nothing, and leaves \<open>query\<close>, \<open>unit\<close>,
  \<open>place\<close>, the payload and \<open>loading\<close> unchanged; \<open>error\<close> is reset to the empty string.
\<close>

theorem blank_submit_clears_error_only:
  assumes "list_all is_white (query (ui s))"
  shows "step pf s Submit_search = s\<lparr>ui := (ui s)\<lparr>error := []\<rparr>\<rparr> \<and>
         requests (step pf s Submit_search) = requests s \<and>
         pending (step pf s Submit_search) = pending s"
proof -
  from assms have "trim (query (ui s)) = []"
    by (simp add: trim_empty_iff)
  then show ?thesis
    by (simp add: searchCity_def setError_def)
qed

theorem blank_submit_clears_error_only_witness:
  "list_all is_white [0x20, 0x3000, 0x9] \<and>
   step browser (run browser mount [Set_query [0x20, 0x3000, 0x9]]) Submit_search =
     \<lparr>ui = \<lparr>query = [0x20, 0x3000, 0x9], unit = Fahrenheit, place = None, wx = None,
            loading = False, error = []\<rparr>,
      pending = [], requests = []\<rparr>"
proof -
  let ?s = "run browser mount [Set_query [0x20, 0x3000, 0x9]]"
  have s: "?s = \<lparr>ui = \<lparr>query = [0x20, 0x3000, 0x9], unit = Fahrenheit, place = None,
                        wx = None, loading = False, error = []\<rparr>,
                  pending = [], requests = []\<rparr>"
    by (simp add: example_defs handler_defs setter_defs)
  have w: "list_all is_white [0x20, 0x3000, 0x9]"
    by (simp add: is_white_def)
  then have h: "list_all is_white (query (ui ?s))" by (simp add: s)
  from blank_submit_clears_error_only [OF h, of browser] w show ?thesis
    by (simp add: s)
qed

section \<open>Changing the unit\<close>

lemma changeUnit_same: "step pf s (Set_unit (unit (ui s))) = s"
  by (simp add: changeUnit_def)

text \<open>
  C4. A change of unit with no place resolved only stores the unit: no request, nothing
  suspended, \<open>loading\<close> untouched. With a place resolved it issues exactly one request, a
  forecast request with the coordinates of that place and the parameters of the new unit
  (\<open>celsius\<close> with \<open>kmh\<close>, \<open>fahrenheit\<close> with \<open>mph\<close>); when that request settles, whatever the
  response, no further request has been issued, so geocoding is never invoked.
\<close>

theorem change_unit_refetches_once:
  assumes "u \<noteq> unit (ui s)"
  shows "(place (ui s) = None \<longrightarrow>
            step pf s (Set_unit u) = s\<lparr>ui := (ui s)\<lparr>unit := u\<rparr>\<rparr>) \<and>
         (\<forall>p. place (ui s) = Some p \<longrightarrow>
            step pf s (Set_unit u) =
              s\<lparr>ui := (ui s)\<lparr>unit := u, loading := True\<rparr>,
                 pending := pending s @ [Refresh_forecast],
                 requests := requests s @
                   [Forecast (lat p) (lon p) (unit_str u) (speedUnit u)]\<rparr> \<and>
            (\<forall>r. requests (run pf s [Set_unit u, Settle (length (pending s)) (Forecasted r)]) =
                   requests s @ [Forecast (lat p) (lon p) (unit_str u) (speedUnit u)] \<and>
                 pending (run pf s [Set_unit u, Settle (length (pending s)) (Forecasted r)]) =
                   pending s)) \<and>
         (u = Celsius \<longrightarrow> unit_str u = lit ''celsius'' \<and> speedUnit u = lit ''kmh'') \<and>
         (u = Fahrenheit \<longrightarrow> unit_str u = lit ''fahrenheit'' \<and> speedUnit u = lit ''mph'')"
proof (intro conjI allI impI)
  assume "place (ui s) = None"
  with assms show "step pf s (Set_unit u) = s\<lparr>ui := (ui s)\<lparr>unit := u\<rparr>\<rparr>"
    by (simp add: changeUnit_def unit_effect_def setUnit_def)
next
  fix p
  assume p: "place (ui s) = Some p"
  with assms show "step pf s (Set_unit u) =
      s\<lparr>ui := (ui s)\<lparr>unit := u, loading := True\<rparr>,
         pending := pending s @ [Refresh_forecast],
         requests := requests s @ [Forecast (lat p) (lon p) (unit_str u) (speedUnit u)]\<rparr>"
    by (simp add: changeUnit_def unit_effect_def fetchWeather_url_def setter_defs)
  fix r
  from assms p show
    "requests (run pf s [Set_unit u, Settle (length (pending s)) (Forecasted r)]) =
       requests s @ [Forecast (lat p) (lon p) (unit_str u) (speedUnit u)]"
    by (cases "fetchWeather r") (simp_all add: handler_defs setter_defs)
  from assms p show
    "pending (run pf s [Set_unit u, Settle (length (pending s)) (Forecasted r)]) = pending s"
    by (cases "fetchWeather r") (simp_all add: handler_defs setter_defs)
next
  assume "u = Celsius"
  then show "unit_str u = lit ''celsius''" "speedUnit u = lit ''kmh''"
    by (simp_all add: unit_str_def speedUnit_def)
next
  assume "u = Fahrenheit"
  then show "unit_str u = lit ''fahrenheit''" "speedUnit u = lit ''mph''"
    by (simp_all add: unit_str_def speedUnit_def)
qed

theorem change_unit_refetches_once_witness:
  "unit (ui mount) = Fahrenheit \<and>
   step browser mount (Set_unit Celsius) =
     \<lparr>ui = \<lparr>query = [], unit = Celsius, place = None, wx = None, loading = False, error = []\<rparr>,
      pending = [], requests = []\<rparr> \<and>
   requests (step browser (run browser mount paris_shown) (Set_unit Celsius)) =
     [Geocoding_search (lit ''Paris''),
      Forecast 48.85 2.35 (lit ''fahrenheit'') (lit ''mph''),
      Forecast 48.85 2.35 (lit ''celsius'') (lit ''kmh'')] \<and>
   requests (run browser (run browser mount paris_shown)
               [Set_unit Celsius, Settle 0 (Forecasted Not_ok)]) =
     [Geocoding_search (lit ''Paris''),
      Forecast 48.85 2.35 (lit ''fahrenheit'') (lit ''mph''),
      Forecast 48.85 2.35 (lit ''celsius'') (lit ''kmh'')]"
proof -
  have m: "mount = \<lparr>ui = initial, pending = [], requests = []\<rparr>"
    by (simp add: mount_def unit_effect_def initial_def)
  have h0: "Celsius \<noteq> unit (ui mount)"
    by (simp add: m initial_def)
  have h1: "Celsius \<noteq> unit (ui (run browser mount paris_shown))"
    by (simp add: paris_shown_state)
  have c: "unit_str Celsius = lit ''celsius'' \<and> speedUnit Celsius = lit ''kmh''"
    using change_unit_refetches_once [OF h0, of browser] by simp
  from change_unit_refetches_once [OF h0, of browser]
  have a: "step browser mount (Set_unit Celsius) =
             \<lparr>ui = \<lparr>query = [], unit = Celsius, place = None, wx = None,
                    loading = False, error = []\<rparr>,
              pending = [], requests = []\<rparr>"
    by (simp add: m initial_def)
  have u: "unit (ui mount) = Fahrenheit"
    by (simp add: m initial_def)
  from change_unit_refetches_once [OF h1, of browser] c
  have b: "requests (step browser (run browser mount paris_shown) (Set_unit Celsius)) =
             requests (run browser mount paris_shown) @
               [Forecast 48.85 2.35 (lit ''celsius'') (lit ''kmh'')] \<and>
           requests (run browser (run browser mount paris_shown)
                       [Set_unit Celsius, Settle 0 (Forecasted Not_ok)]) =
             requests (run browser mount paris_shown) @
               [Forecast 48.85 2.35 (lit ''celsius'') (lit ''kmh'')]"
    by (simp add: paris_shown_state)
  from a b u show ?thesis
    by (simp add: paris_shown_state)
qed

section \<open>No results\<close>

text \<open>
  C6. When the geocoding response is \<open>ok\<close> and its results list is empty (or missing),
  \<open>geocodeCity\<close> throws the error with message \<open>No results for that city\<close>; the search,
  which had set \<open>loading\<close>, ends with that message in \<open>error\<close> and \<open>loading\<close> false, and
  has issued the geocoding request only. (The source has one error class; the message
  tells the kind.)
\<close>

theorem no_results_error:
  assumes "trim (query (ui s)) \<noteq> []"
    and "encodeURIComponent pf (trim (query (ui s))) = Inr nm"
    and "results = Some [] \<or> results = None"
  shows "geocodeCity (Ok results) = Inl (Error (lit ''No results for that city'')) \<and>
         loading (ui (run pf s [Submit_search])) \<and>
         run pf s [Submit_search, Settle (length (pending s)) (Geocoded (Ok results))] =
           s\<lparr>ui := (ui s)\<lparr>loading := False, error := lit ''No results for that city''\<rparr>,
              requests := requests s @ [Geocoding_search nm]\<rparr>"
proof (intro conjI)
  from assms(3)
  show g: "geocodeCity (Ok results) = Inl (Error (lit ''No results for that city''))"
    by auto
  from assms(1,2) show "loading (ui (run pf s [Submit_search]))"
    by (simp add: run_def searchCity_def setter_defs)
  have "message_or (Error (lit ''No results for that city'')) (lit ''Something went wrong'') =
          lit ''No results for that city''"
    by (simp add: message_or_def lit_def)
  with search_geocoding_failure [OF assms(1,2) g]
  show "run pf s [Submit_search, Settle (length (pending s)) (Geocoded (Ok results))] =
          s\<lparr>ui := (ui s)\<lparr>loading := False, error := lit ''No results for that city''\<rparr>,
             requests := requests s @ [Geocoding_search nm]\<rparr>"
    by simp
qed

theorem no_results_error_witness:
  "run browser (run browser mount [Set_query (lit ''Atlantis'')])
     [Submit_search, Settle 0 (Geocoded (Ok (Some [])))] =
     \<lparr>ui = \<lparr>query = lit ''Atlantis'', unit = Fahrenheit, place = None, wx = None,
            loading = False, error = lit ''No results for that city''\<rparr>,
      pending = [], requests = [Geocoding_search (lit ''Atlantis'')]\<rparr>"
proof -
  let ?s = "run browser mount [Set_query (lit ''Atlantis'')]"
  have s: "?s = \<lparr>ui = \<lparr>query = lit ''Atlantis'', unit = Fahrenheit, place = None, wx = None,
                        loading = False, error = []\<rparr>,
                  pending = [], requests = []\<rparr>"
    by (simp add: example_defs handler_defs setter_defs)
  have t: "trim (query (ui ?s)) = lit ''Atlantis''"
    by (simp add: s) (simp add: trim_def is_white_def lit_def)
  have h1: "trim (query (ui ?s)) \<noteq> []"
    by (simp only: t) (simp add: lit_def)
  have h2: "encodeURIComponent browser (trim (query (ui ?s))) = Inr (lit ''Atlantis'')"
    by (simp only: t) (simp add: browser_def)
  have h3: "Some [] = Some ([] :: geo_result list) \<or> Some [] = (None :: geo_data)"
    by simp
  from no_results_error [OF h1 h2 h3] show ?thesis
    by (simp add: s)
qed

section \<open>The initial state\<close>

text \<open>
  C9. The mounted component holds the empty query, unit Fahrenheit, no place, no payload,
  \<open>loading\<close> false and the empty error string, for which no notice is shown; mounting
  issues no request and suspends nothing.
\<close>

theorem initial_state:
  "ui mount = \<lparr>query = [], unit = Fahrenheit, place = None, wx = None,
               loading = False, error = []\<rparr> \<and>
   error_notice (ui mount) = None \<and> pending mount = [] \<and> requests mount = []"
  by (simp add: mount_def initial_def unit_effect_def error_notice_def)

section \<open>The geolocation path\<close>

text \<open>
  C10. In \<open>useMyLocation\<close>, \<open>place\<close> is untouched when the handler starts and when the
  position arrives (one forecast request goes out then). If the forecast fails, the whole
  action has changed only \<open>loading\<close> and \<open>error\<close>: \<open>place\<close> and the payload are the prior
  ones. Only if it succeeds are the payload and the place \<open>My location\<close> assigned.
\<close>

theorem my_location_failure_keeps_place:
  assumes "geolocation pf"
  shows "place (ui (run pf s [Use_my_location])) = place (ui s) \<and>
         place (ui (run pf s [Use_my_location,
                              Settle (length (pending s)) (Located (Position la lo))])) =
           place (ui s) \<and>
         requests (run pf s [Use_my_location,
                             Settle (length (pending s)) (Located (Position la lo))]) =
           requests s @ [Forecast la lo (unit_str (unit (ui s))) (speedUnit (unit (ui s)))] \<and>
         (\<forall>err. fetchWeather r = Inl err \<longrightarrow>
            run pf s [Use_my_location,
                      Settle (length (pending s)) (Located (Position la lo)),
                      Settle (length (pending s)) (Forecasted r)] =
              s\<lparr>ui := (ui s)\<lparr>loading := False,
                              error := message_or err (lit ''Failed to fetch weather'')\<rparr>,
                 requests := requests s @
                   [Forecast la lo (unit_str (unit (ui s))) (speedUnit (unit (ui s)))]\<rparr>) \<and>
         (\<forall>w. fetchWeather r = Inr w \<longrightarrow>
            ui (run pf s [Use_my_location,
                          Settle (length (pending s)) (Located (Position la lo)),
                          Settle (length (pending s)) (Forecasted r)]) =
              (ui s)\<lparr>place := Some \<lparr>name = lit ''My location'', country = [],
                                      lat = la, lon = lo\<rparr>,
                      wx := Some w, loading := False, error := []\<rparr>)"
  using assms by (simp add: handler_defs setter_defs)

theorem my_location_failure_keeps_place_witness:
  "run browser (run browser mount paris_shown)
     [Use_my_location, Settle 0 (Located (Position 10 20)), Settle 0 (Forecasted Not_ok)] =
     \<lparr>ui = \<lparr>query = lit ''Paris'', unit = Fahrenheit,
            place = Some \<lparr>name = lit ''Paris'', country = lit ''FR'', lat = 48.85, lon = 2.35\<rparr>,
            wx = Some sunny, loading = False, error = lit ''Weather fetch failed''\<rparr>,
      pending = [],
      requests = [Geocoding_search (lit ''Paris''),
                  Forecast 48.85 2.35 (lit ''fahrenheit'') (lit ''mph''),
                  Forecast 10 20 (lit ''fahrenheit'') (lit ''mph'')]\<rparr>"
proof -
  have g: "geolocation browser" by (simp add: browser_def)
  have f: "fetchWeather Not_ok = Inl (Error (lit ''Weather fetch failed''))" by simp
  have e: "message_or (Error (lit ''Weather fetch failed'')) (lit ''Failed to fetch weather'') =
             lit ''Weather fetch failed''"
    by (simp add: message_or_def lit_def)
  from my_location_failure_keeps_place [OF g, of "run browser mount paris_shown" 10 20 Not_ok] f e
  show ?thesis
    by (simp add: paris_shown_state unit_str_def speedUnit_def)
qed

section \<open>Describing a weather code\<close>

text \<open>
  C5. The lookup has a result for every integer code: for a code that is not a key of the
  table it is the default pair of the place that shows it (the dash and the cloud emoji
  in the forecast grid, \<open>Current conditions\<close> and the sun-and-cloud emoji in the current
  card), and for a key of the table it is the entry of the table.
\<close>

theorem describe_total:
  "(WMO code = None \<longrightarrow>
      describe code = daily_fallback \<and> describe_current code = current_fallback) \<and>
   (\<forall>e. WMO code = Some e \<longrightarrow> describe code = e \<and> describe_current code = e)"
proof (intro conjI allI impI)
  assume "WMO code = None"
  then show "describe code = daily_fallback" "describe_current code = current_fallback"
    by (simp_all add: describe_def describe_current_def field_or_unmapped)
next
  fix e
  assume "WMO code = Some e"
  then have l: "\<And>d. field_or label code d = label e"
    and m: "\<And>d. field_or emoji code d = emoji e"
    using field_or_mapped [of code e] by simp_all
  show "describe code = e" "describe_current code = e"
    by (simp_all add: describe_def describe_current_def l m)
qed

theorem describe_total_witness:
  "WMO 4 = None \<and> describe 4 = \<lparr>label = [0x2014], emoji = [0x26C5]\<rparr> \<and>
   describe (- 1) = \<lparr>label = [0x2014], emoji = [0x26C5]\<rparr> \<and>
   describe_current 4 =
     \<lparr>label = lit ''Current conditions'', emoji = [0xD83C, 0xDF24, 0xFE0F]\<rparr> \<and>
   WMO 45 = Some \<lparr>label = lit ''Fog'', emoji = [0xD83C, 0xDF2B, 0xFE0F]\<rparr> \<and>
   describe 45 = \<lparr>label = lit ''Fog'', emoji = [0xD83C, 0xDF2B, 0xFE0F]\<rparr> \<and>
   describe_current 45 = \<lparr>label = lit ''Fog'', emoji = [0xD83C, 0xDF2B, 0xFE0F]\<rparr>"
proof -
  have n: "WMO 4 = None" "WMO (- 1) = None"
    by (simp_all add: WMO_def WMO_table_def)
  have f: "WMO 45 = Some \<lparr>label = lit ''Fog'', emoji = [0xD83C, 0xDF2B, 0xFE0F]\<rparr>"
    by (simp add: WMO_def WMO_table_def)
  from describe_total [of 4] describe_total [of "- 1"] describe_total [of 45] n f
  show ?thesis
    by (simp add: daily_fallback_def current_fallback_def)
qed

section \<open>The forecast grid\<close>

lemma cards_from_present:
  assumes "daily_weather_code d = Some codes"
    and "temperature_2m_max d = Some maxs"
    and "temperature_2m_min d = Some mins"
  shows "cards_from d i dates =
           Inr (map (\<lambda>k. \<lparr>card_date = dates ! k,
                          card_emoji = emoji (describe_opt (elem_at codes (i + k))),
                          card_label = label (describe_opt (elem_at codes (i + k))),
                          card_max = round_js (elem_at maxs (i + k)),
                          card_min = round_js (elem_at mins (i + k))\<rparr>)
                  [0..<length dates])"
proof (induction dates arbitrary: i)
  case Nil
  show ?case by simp
next
  case (Cons date dates)
  have "day_card d i date =
          Inr \<lparr>card_date = date,
               card_emoji = emoji (describe_opt (elem_at codes i)),
               card_label = label (describe_opt (elem_at codes i)),
               card_max = round_js (elem_at maxs i),
               card_min = round_js (elem_at mins i)\<rparr>"
    using assms by (simp add: day_card_def)
  then show ?case
    by (simp add: Cons.IH [of "Suc i"] map_upt_Suc del: upt_Suc)
qed

text \<open>
  C7. For a daily payload whose four sequences are present and of one length, the grid
  is rendered without error and consists of one card for each of the first five entries,
  or for every entry when there are fewer than five; card \<open>k\<close> shows the date, the
  description of the code and the rounded maximum and minimum of entry \<open>k\<close>.
\<close>

theorem forecast_grid_first_five:
  assumes "daily w = Some d"
    and "daily_time d = Some dates"
    and "daily_weather_code d = Some codes"
    and "temperature_2m_max d = Some maxs"
    and "temperature_2m_min d = Some mins"
    and "length codes = length dates"
    and "length maxs = length dates"
    and "length mins = length dates"
  shows "forecast_grid (Some w) =
           Inr (Cards (map (\<lambda>k. \<lparr>card_date = dates ! k,
                                  card_emoji = emoji (describe (codes ! k)),
                                  card_label = label (describe (codes ! k)),
                                  card_max = Some \<lfloor>maxs ! k + 1 / 2\<rfloor>,
                                  card_min = Some \<lfloor>mins ! k + 1 / 2\<rfloor>\<rparr>)
                  [0..<(if 5 \<le> length dates then 5 else length dates)]))"
proof -
  let ?n = "if 5 \<le> length dates then 5 else length dates"
  have n: "length (take 5 dates) = ?n" by simp
  have "forecast_grid (Some w) =
          Inr (Cards (map (\<lambda>k. \<lparr>card_date = take 5 dates ! k,
                                 card_emoji = emoji (describe_opt (elem_at codes (0 + k))),
                                 card_label = label (describe_opt (elem_at codes (0 + k))),
                                 card_max = round_js (elem_at maxs (0 + k)),
                                 card_min = round_js (elem_at mins (0 + k))\<rparr>)
                 [0..<length (take 5 dates)]))"
    using assms(1,2) cards_from_present [OF assms(3,4,5), of 0 "take 5 dates"]
    by (simp add: forecast_grid_def)
  also have "map (\<lambda>k. \<lparr>card_date = take 5 dates ! k,
                       card_emoji = emoji (describe_opt (elem_at codes (0 + k))),
                       card_label = label (describe_opt (elem_at codes (0 + k))),
                       card_max = round_js (elem_at maxs (0 + k)),
                       card_min = round_js (elem_at mins (0 + k))\<rparr>)
               [0..<length (take 5 dates)] =
             map (\<lambda>k. \<lparr>card_date = dates ! k,
                       card_emoji = emoji (describe (codes ! k)),
                       card_label = label (describe (codes ! k)),
                       card_max = Some \<lfloor>maxs ! k + 1 / 2\<rfloor>,
                       card_min = Some \<lfloor>mins ! k + 1 / 2\<rfloor>\<rparr>)
               [0..<?n]"
    unfolding n using assms(6,7,8)
    by (intro map_cong refl)
      (auto simp: elem_at_def describe_opt_def round_js_def split: if_splits)
  finally show ?thesis .
qed

theorem forecast_grid_first_five_witness:
  "forecast_grid (Some sunny) =
     Inr (Cards
       [\<lparr>card_date = lit ''2025-01-01'', card_emoji = [0x2600, 0xFE0F],
         card_label = lit ''Clear'', card_max = Some 72, card_min = Some 55\<rparr>,
        \<lparr>card_date = lit ''2025-01-02'', card_emoji = [0xD83C, 0xDF27, 0xFE0F],
         card_label = lit ''Light rain'', card_max = Some 69, card_min = Some 55\<rparr>,
        \<lparr>card_date = lit ''2025-01-03'', card_emoji = [0x26C5],
         card_label = [0x2014], card_max = Some 70, card_min = Some 0\<rparr>]) \<and>
   forecast_grid (Some week) =
     Inr (Cards
       [\<lparr>card_date = lit ''d1'', card_emoji = [0x2600, 0xFE0F],
         card_label = lit ''Clear'', card_max = Some 10, card_min = Some 0\<rparr>,
        \<lparr>card_date = lit ''d2'', card_emoji = [0xD83C, 0xDF24, 0xFE0F],
         card_label = lit ''Mainly clear'', card_max = Some 11, card_min = Some 1\<rparr>,
        \<lparr>card_date = lit ''d3'', card_emoji = [0x26C5],
         card_label = lit ''Partly cloudy'', card_max = Some 12, card_min = Some 2\<rparr>,
        \<lparr>card_date = lit ''d4'', card_emoji = [0x2601, 0xFE0F],
         card_label = lit ''Overcast'', card_max = Some 13, card_min = Some 3\<rparr>,
        \<lparr>card_date = lit ''d5'', card_emoji = [0xD83C, 0xDF2B, 0xFE0F],
         card_label = lit ''Fog'', card_max = Some 14, card_min = Some 4\<rparr>])"
proof -
  have d: "describe 0 = \<lparr>label = lit ''Clear'', emoji = [0x2600, 0xFE0F]\<rparr>"
    "describe 1 = \<lparr>label = lit ''Mainly clear'', emoji = [0xD83C, 0xDF24, 0xFE0F]\<rparr>"
    "describe 2 = \<lparr>label = lit ''Partly cloudy'', emoji = [0x26C5]\<rparr>"
    "describe 3 = \<lparr>label = lit ''Overcast'', emoji = [0x2601, 0xFE0F]\<rparr>"
    "describe 4 = \<lparr>label = [0x2014], emoji = [0x26C5]\<rparr>"
    "describe 45 = \<lparr>label = lit ''Fog'', emoji = [0xD83C, 0xDF2B, 0xFE0F]\<rparr>"
    "describe 61 = \<lparr>label = lit ''Light rain'', emoji = [0xD83C, 0xDF27, 0xFE0F]\<rparr>"
    by (simp_all add: describe_def field_or_def WMO_def WMO_table_def daily_fallback_def lit_def)
  have a: "forecast_grid (Some sunny) =
      Inr (Cards (map (\<lambda>k. \<lparr>card_date = [lit ''2025-01-01'', lit ''2025-01-02'', lit ''2025-01-03''] ! k,
                             card_emoji = emoji (describe ([0, 61, 4] ! k)),
                             card_label = label (describe ([0, 61, 4] ! k)),
                             card_max = Some \<lfloor>[71.6, 68.5, 70 :: real] ! k + 1 / 2\<rfloor>,
                             card_min = Some \<lfloor>[55.2, 54.5, - 0.5 :: real] ! k + 1 / 2\<rfloor>\<rparr>)
              [0..<(if 5 \<le> length [lit ''2025-01-01'', lit ''2025-01-02'', lit ''2025-01-03'']
                    then 5
                    else length [lit ''2025-01-01'', lit ''2025-01-02'', lit ''2025-01-03''])]))"
    by (rule forecast_grid_first_five [of sunny three_days])
      (simp_all add: sunny_def three_days_def)
  have b: "forecast_grid (Some week) =
      Inr (Cards (map (\<lambda>k. \<lparr>card_date = [lit ''d1'', lit ''d2'', lit ''d3'', lit ''d4'', lit ''d5'',
                                          lit ''d6'', lit ''d7''] ! k,
                             card_emoji = emoji (describe ([0, 1, 2, 3, 45, 48, 51] ! k)),
                             card_label = label (describe ([0, 1, 2, 3, 45, 48, 51] ! k)),
                             card_max = Some \<lfloor>[10, 11, 12, 13, 14, 15, 16 :: real] ! k + 1 / 2\<rfloor>,
                             card_min = Some \<lfloor>[0, 1, 2, 3, 4, 5, 6 :: real] ! k + 1 / 2\<rfloor>\<rparr>)
              [0..<(if 5 \<le> length [lit ''d1'', lit ''d2'', lit ''d3'', lit ''d4'', lit ''d5'',
                                     lit ''d6'', lit ''d7'']
                    then 5
                    else length [lit ''d1'', lit ''d2'', lit ''d3'', lit ''d4'', lit ''d5'',
                                 lit ''d6'', lit ''d7''])]))"
    by (rule forecast_grid_first_five [of week seven_days])
      (simp_all add: week_def seven_days_def)
  have u3: "[0..<3] = [0, 1, 2]" and u5: "[0..<5] = [0, 1, 2, 3, 4]"
    by (simp_all add: upt_rec)
  show ?thesis
    by (simp add: a b u3 u5 d)
qed

text \<open>
  C8. The description of a code depends on the code alone. Two cards rendered from any
  two daily payloads, at any positions and for any dates, whose codes are the same show
  the same label and emoji, those of \<open>describe\<close>; for a key of the table these are the
  label and emoji of its entry, whatever the payloads are.
\<close>

theorem describe_deterministic:
  assumes "daily_weather_code d1 = Some codes1"
    and "daily_weather_code d2 = Some codes2"
    and "day_card d1 i date1 = Inr c1"
    and "day_card d2 j date2 = Inr c2"
    and "elem_at codes1 i = Some code"
    and "elem_at codes2 j = Some code"
  shows "card_label c1 = label (describe code) \<and> card_emoji c1 = emoji (describe code) \<and>
         card_label c2 = card_label c1 \<and> card_emoji c2 = card_emoji c1 \<and>
         (\<forall>e. WMO code = Some e \<longrightarrow>
            card_label c1 = label e \<and> card_emoji c1 = emoji e \<and>
            card_label c2 = label e \<and> card_emoji c2 = emoji e)"
proof -
  have c1: "card_label c1 = label (describe code) \<and> card_emoji c1 = emoji (describe code)"
    using assms(1,3,5)
    by (auto simp: day_card_def describe_opt_def split: option.splits)
  have c2: "card_label c2 = label (describe code) \<and> card_emoji c2 = emoji (describe code)"
    using assms(2,4,6)
    by (auto simp: day_card_def describe_opt_def split: option.splits)
  have "describe code = e" if "WMO code = Some e" for e
    using that field_or_mapped [of code e] by (simp add: describe_def)
  with c1 c2 show ?thesis by simp
qed

theorem describe_deterministic_witness:
  "day_card three_days 1 (lit ''2025-01-02'') =
     Inr \<lparr>card_date = lit ''2025-01-02'', card_emoji = [0xD83C, 0xDF27, 0xFE0F],
          card_label = lit ''Light rain'', card_max = Some 69, card_min = Some 55\<rparr> \<and>
   day_card \<lparr>daily_time = None, daily_weather_code = Some [3, 3, 61],
             temperature_2m_max = Some [], temperature_2m_min = Some [1]\<rparr> 2 [] =
     Inr \<lparr>card_date = [], card_emoji = [0xD83C, 0xDF27, 0xFE0F],
          card_label = lit ''Light rain'', card_max = None, card_min = None\<rparr> \<and>
   WMO 61 = Some \<lparr>label = lit ''Light rain'', emoji = [0xD83C, 0xDF27, 0xFE0F]\<rparr>"
proof -
  let ?d2 = "\<lparr>daily_time = None, daily_weather_code = Some [3, 3, 61],
              temperature_2m_max = Some [], temperature_2m_min = Some [1]\<rparr>"
  let ?c1 = "\<lparr>card_date = lit ''2025-01-02'',
              card_emoji = emoji (describe 61), card_label = label (describe 61),
              card_max = Some 69, card_min = Some 55\<rparr>"
  let ?c2 = "\<lparr>card_date = [],
              card_emoji = emoji (describe 61), card_label = label (describe 61),
              card_max = None, card_min = None\<rparr>"
  have w: "WMO 61 = Some \<lparr>label = lit ''Light rain'', emoji = [0xD83C, 0xDF27, 0xFE0F]\<rparr>"
    by (simp add: WMO_def WMO_table_def)
  have h1: "daily_weather_code three_days = Some [0, 61, 4]"
    by (simp add: three_days_def)
  have h2: "daily_weather_code ?d2 = Some [3, 3, 61]" by simp
  have h3: "day_card three_days 1 (lit ''2025-01-02'') = Inr ?c1"
    by (simp add: day_card_def three_days_def elem_at_def round_js_def describe_opt_def)
  have h4: "day_card ?d2 2 [] = Inr ?c2"
    by (simp add: day_card_def elem_at_def round_js_def describe_opt_def)
  have h5: "elem_at [0, 61, 4] 1 = Some (61::int)" by (simp add: elem_at_def)
  have h6: "elem_at [3, 3, 61] 2 = Some (61::int)" by (simp add: elem_at_def)
  from describe_deterministic [OF h1 h2 h3 h4 h5 h6] w
  have "label (describe 61) = lit ''Light rain'' \<and>
        emoji (describe 61) = [0xD83C, 0xDF27, 0xFE0F]"
    by simp
  with h3 h4 w show ?thesis by simp
qed

end
